theory Spec2Isabelle
  imports Main "HOL-Library.List_Lexorder" "HOL-Library.Char_ord" "HOL-Library.AList"
begin

section \<open>Python values, errors\<close>

text \<open>
  The exceptions the modelled code can raise: a missing dictionary key, an index out of
  range, a missing attribute, and a type error (calling or iterating something that is
  neither callable nor iterable).
\<close>

datatype error = KeyError | IndexError | AttributeError | TypeError

text \<open>
  Modelled from the spec: the PointerTensor type (the tensors package is not part of the
  sources): a wrapped value holds a \<open>child\<close> reference. The values that reach the
  trampoline are: integers, \<open>None\<close>, a pointer tensor with its child, any other object
  given by the name of its class and its \<open>child\<close> attribute when it has one, lists and
  tuples. Objects other than lists and tuples are taken to be neither subscriptable nor
  iterable.
\<close>

datatype val =
    PInt int
  | PNone
  | PObj string "val option"
  | PPointer val
  | PList "val list"
  | PTuple "val list"

text \<open>The rule \<open>build_rule\<close> returns: the integers 0 and 1, nested in lists and tuples.\<close>

datatype rule = RInt int | RList "rule list" | RTuple "rule list"

section \<open>get_overloaded_method: the unwrap rule\<close>

fun build_rule :: "val \<Rightarrow> rule" where
  "build_rule (PList xs) = RList (map build_rule xs)"
| "build_rule (PTuple xs) = RTuple (map build_rule xs)"
| "build_rule (PPointer c) = RInt 1"
| "build_rule (PObj n c) = (if n = ''LogTensor'' then RInt 1 else RInt 0)"
| "build_rule (PInt i) = RInt 0"
| "build_rule PNone = RInt 0"

text \<open>Python truth of a rule (\<open>not r\<close>): 0 and the empty list and tuple are false.\<close>

fun truthy :: "rule \<Rightarrow> bool" where
  "truthy (RInt i) = (i \<noteq> 0)"
| "truthy (RList rs) = (rs \<noteq> [])"
| "truthy (RTuple rs) = (rs \<noteq> [])"

text \<open>\<open>isinstance(r, (list, tuple))\<close>\<close>

fun is_list_or_tuple :: "rule \<Rightarrow> bool" where
  "is_list_or_tuple (RInt i) = False"
| "is_list_or_tuple (RList rs) = True"
| "is_list_or_tuple (RTuple rs) = True"

text \<open>
  The three fold functions, and the closures \<open>build_args_hook\<close> makes of them:
  \<open>lambda i: i\<close>, \<open>lambda i: i.child\<close> and \<open>lambda x: f(lambdas, x)\<close>.
\<close>

datatype fold = one_fold | two_fold | three_fold

datatype lam = Ident | Child | Closure fold "lam list"

text \<open>\<open>folds = {1: one_fold, 2: two_fold, 3: three_fold}\<close>\<close>

definition folds :: "nat \<Rightarrow> fold option" where
  "folds n = (if n = 1 then Some one_fold else if n = 2 then Some two_fold
              else if n = 3 then Some three_fold else None)"

text \<open>Iterating a value (\<open>zip\<close>, star-unpacking) and subscripting it.\<close>

fun py_iter :: "val \<Rightarrow> error + val list" where
  "py_iter (PList xs) = Inr xs"
| "py_iter (PTuple xs) = Inr xs"
| "py_iter v = Inl TypeError"

definition seq_index :: "val list \<Rightarrow> nat \<Rightarrow> error + val" where
  "seq_index xs i = (if i < length xs then Inr (xs ! i) else Inl IndexError)"

fun py_getitem :: "val \<Rightarrow> nat \<Rightarrow> error + val" where
  "py_getitem (PList xs) i = seq_index xs i"
| "py_getitem (PTuple xs) i = seq_index xs i"
| "py_getitem v i = Inl TypeError"

text \<open>The attribute \<open>child\<close> of a value.\<close>

fun py_child :: "val \<Rightarrow> error + val" where
  "py_child (PPointer c) = Inr c"
| "py_child (PObj n (Some c)) = Inr c"
| "py_child v = Inl AttributeError"

text \<open>
  \<open>build_args_hook(args, rules)\<close>: the list comprehension over \<open>zip(args, rules)\<close> is
  \<open>build_lambdas\<close>; it is evaluated in full before the fold table is read.
\<close>

fun build_args_hook :: "val \<Rightarrow> rule \<Rightarrow> error + lam"
  and build_lambdas :: "val list \<Rightarrow> rule list \<Rightarrow> error + lam list" where
  "build_args_hook args (RInt i) = Inl TypeError"
| "build_args_hook args (RList rs) =
     (case py_iter args of Inl e \<Rightarrow> Inl e
      | Inr xs \<Rightarrow>
         (case build_lambdas xs rs of Inl e \<Rightarrow> Inl e
          | Inr ls \<Rightarrow>
             (case folds (length ls) of None \<Rightarrow> Inl KeyError
              | Some f \<Rightarrow> Inr (Closure f ls))))"
| "build_args_hook args (RTuple rs) =
     (case py_iter args of Inl e \<Rightarrow> Inl e
      | Inr xs \<Rightarrow>
         (case build_lambdas xs rs of Inl e \<Rightarrow> Inl e
          | Inr ls \<Rightarrow>
             (case folds (length ls) of None \<Rightarrow> Inl KeyError
              | Some f \<Rightarrow> Inr (Closure f ls))))"
| "build_lambdas (a # xs) (r # rs) =
     (case (if \<not> truthy r then Inr Ident
            else if is_list_or_tuple r then build_args_hook a r
            else Inr Child) of
        Inl e \<Rightarrow> Inl e
      | Inr l \<Rightarrow>
         (case build_lambdas xs rs of Inl e \<Rightarrow> Inl e
          | Inr ls \<Rightarrow> Inr (l # ls)))"
| "build_lambdas [] rs = Inr []"
| "build_lambdas xs [] = Inr []"

text \<open>
  Calling one of the closures. \<open>one_fold\<close> returns the bare result of its single lambda,
  \<open>two_fold\<close> and \<open>three_fold\<close> return tuples; elements of the argument beyond the
  fold's arity are not read. A closure with fewer lambdas than the arity of its fold is
  never built; calling one is an IndexError.
\<close>

fun apply_lam :: "lam \<Rightarrow> val \<Rightarrow> error + val" where
  "apply_lam Ident x = Inr x"
| "apply_lam Child x = py_child x"
| "apply_lam (Closure one_fold (l0 # ls)) x =
     (case py_getitem x 0 of Inl e \<Rightarrow> Inl e | Inr x0 \<Rightarrow> apply_lam l0 x0)"
| "apply_lam (Closure two_fold (l0 # l1 # ls)) x =
     (case py_getitem x 0 of Inl e \<Rightarrow> Inl e
      | Inr x0 \<Rightarrow>
         (case apply_lam l0 x0 of Inl e \<Rightarrow> Inl e
          | Inr y0 \<Rightarrow>
             (case py_getitem x 1 of Inl e \<Rightarrow> Inl e
              | Inr x1 \<Rightarrow>
                 (case apply_lam l1 x1 of Inl e \<Rightarrow> Inl e
                  | Inr y1 \<Rightarrow> Inr (PTuple [y0, y1])))))"
| "apply_lam (Closure three_fold (l0 # l1 # l2 # ls)) x =
     (case py_getitem x 0 of Inl e \<Rightarrow> Inl e
      | Inr x0 \<Rightarrow>
         (case apply_lam l0 x0 of Inl e \<Rightarrow> Inl e
          | Inr y0 \<Rightarrow>
             (case py_getitem x 1 of Inl e \<Rightarrow> Inl e
              | Inr x1 \<Rightarrow>
                 (case apply_lam l1 x1 of Inl e \<Rightarrow> Inl e
                  | Inr y1 \<Rightarrow>
                     (case py_getitem x 2 of Inl e \<Rightarrow> Inl e
                      | Inr x2 \<Rightarrow>
                         (case apply_lam l2 x2 of Inl e \<Rightarrow> Inl e
                          | Inr y2 \<Rightarrow> Inr (PTuple [y0, y1, y2])))))))"
| "apply_lam (Closure f ls) x = Inl IndexError"

section \<open>Which calls the rule can be built and applied on\<close>

text \<open>
  Predicates on the arguments of a call: every list and tuple nested in the value has at
  most three elements (\<open>foldable\<close>); every object classified as wrapped by its class
  name has a \<open>child\<close> attribute (\<open>has_children\<close>). \<open>unwrapped\<close> is, written
  directly, the value that the rule derived from a value gives on that value: a wrapped
  value is replaced by its child, a sequence of two or three elements by the tuple of its
  unwrapped elements, a sequence of one element by its unwrapped element, and anything
  else (an empty sequence too) is unchanged.
  \<open>slot_lam\<close> is one element of the list comprehension of \<open>build_args_hook\<close>.
\<close>

fun foldable :: "val \<Rightarrow> bool" where
  "foldable (PList xs) = (length xs \<le> 3 \<and> list_all foldable xs)"
| "foldable (PTuple xs) = (length xs \<le> 3 \<and> list_all foldable xs)"
| "foldable v = True"

fun has_children :: "val \<Rightarrow> bool" where
  "has_children (PList xs) = list_all has_children xs"
| "has_children (PTuple xs) = list_all has_children xs"
| "has_children (PObj n c) = (n \<noteq> ''LogTensor'' \<or> c \<noteq> None)"
| "has_children v = True"

fun unwrapped :: "val \<Rightarrow> val" where
  "unwrapped (PPointer c) = c"
| "unwrapped (PObj n c) =
     (if n = ''LogTensor'' then (case c of Some ch \<Rightarrow> ch | None \<Rightarrow> PObj n c) else PObj n c)"
| "unwrapped (PList xs) =
     (case xs of [] \<Rightarrow> PList []
      | a # ys \<Rightarrow> (case ys of [] \<Rightarrow> unwrapped a | b # zs \<Rightarrow> PTuple (map unwrapped xs)))"
| "unwrapped (PTuple xs) =
     (case xs of [] \<Rightarrow> PTuple []
      | a # ys \<Rightarrow> (case ys of [] \<Rightarrow> unwrapped a | b # zs \<Rightarrow> PTuple (map unwrapped xs)))"
| "unwrapped v = v"

definition slot_lam :: "val \<Rightarrow> rule \<Rightarrow> error + lam" where
  "slot_lam a r = (if \<not> truthy r then Inr Ident
            else if is_list_or_tuple r then build_args_hook a r
            else Inr Child)"

text \<open>
  Building the lambda of a slot succeeds on a foldable value and raises KeyError on any
  other.
\<close>

definition slot_builds :: "val \<Rightarrow> bool" where
  "slot_builds v = (if foldable v then (\<exists>l. slot_lam v (build_rule v) = Inr l)
                    else slot_lam v (build_rule v) = Inl KeyError)"

text \<open>
  Building and applying the lambda of a slot on the value it was built from gives the
  unwrapped value.
\<close>

definition slot_ok :: "val \<Rightarrow> bool" where
  "slot_ok v = (\<exists>l. slot_lam v (build_rule v) = Inr l \<and> apply_lam l v = Inr (unwrapped v))"

section \<open>Helper lemmas on building the hook\<close>

lemma build_lambdas_Cons:
  "build_lambdas (a # xs) (r # rs) =
     (case slot_lam a r of Inl e \<Rightarrow> Inl e
      | Inr l \<Rightarrow> (case build_lambdas xs rs of Inl e \<Rightarrow> Inl e | Inr ls \<Rightarrow> Inr (l # ls)))"
  by (simp add: slot_lam_def)

lemma build_lambdas_Nil2: "build_lambdas xs [] = Inr []"
  by (cases xs) simp_all

lemma build_lambdas_builds:
  assumes "\<forall>x \<in> set xs. slot_builds x"
  shows "if list_all foldable xs
         then (\<exists>ls. build_lambdas xs (map build_rule xs) = Inr ls \<and> length ls = length xs)
         else build_lambdas xs (map build_rule xs) = Inl KeyError"
  using assms
proof (induction xs)
  case Nil
  then show ?case by simp
next
  case (Cons a xs)
  have a: "slot_builds a" using Cons.prems by simp
  have IH: "if list_all foldable xs
         then (\<exists>ls. build_lambdas xs (map build_rule xs) = Inr ls \<and> length ls = length xs)
         else build_lambdas xs (map build_rule xs) = Inl KeyError"
    using Cons by simp
  have eq: "build_lambdas (a # xs) (map build_rule (a # xs)) =
     (case slot_lam a (build_rule a) of Inl e \<Rightarrow> Inl e
      | Inr l \<Rightarrow> (case build_lambdas xs (map build_rule xs) of Inl e \<Rightarrow> Inl e | Inr ls \<Rightarrow> Inr (l # ls)))"
    by (simp only: list.map build_lambdas_Cons)
  show ?case
  proof (cases "foldable a")
    case False
    then show ?thesis using a by (simp only: eq) (simp add: slot_builds_def)
  next
    case True
    then obtain l where l: "slot_lam a (build_rule a) = Inr l" using a by (auto simp: slot_builds_def)
    show ?thesis
    proof (cases "list_all foldable xs")
      case True
      then obtain ls where "build_lambdas xs (map build_rule xs) = Inr ls" "length ls = length xs"
        using IH by auto
      then show ?thesis using l True \<open>foldable a\<close> by (simp only: eq) simp
    next
      case False
      then have "build_lambdas xs (map build_rule xs) = Inl KeyError" using IH by simp
      then show ?thesis using l False by (simp only: eq) simp
    qed
  qed
qed

lemma seq_builds:
  assumes "\<forall>x \<in> set xs. slot_builds x"
  shows "build_args_hook (PTuple xs) (RTuple (map build_rule xs)) =
           build_args_hook (PList xs) (RList (map build_rule xs))"
    and "if 1 \<le> length xs \<and> length xs \<le> 3 \<and> list_all foldable xs
         then (\<exists>h. build_args_hook (PTuple xs) (RTuple (map build_rule xs)) = Inr h)
         else build_args_hook (PTuple xs) (RTuple (map build_rule xs)) = Inl KeyError"
proof -
  show "build_args_hook (PTuple xs) (RTuple (map build_rule xs)) =
           build_args_hook (PList xs) (RList (map build_rule xs))" by simp
  show "if 1 \<le> length xs \<and> length xs \<le> 3 \<and> list_all foldable xs
         then (\<exists>h. build_args_hook (PTuple xs) (RTuple (map build_rule xs)) = Inr h)
         else build_args_hook (PTuple xs) (RTuple (map build_rule xs)) = Inl KeyError"
    using build_lambdas_builds[OF assms]
    by (auto simp: folds_def split: if_splits)
qed

lemma slot_builds_all: "slot_builds v"
proof (induction v)
  case (PList xs)
  then have a: "\<forall>x \<in> set xs. slot_builds x" by simp
  show ?case
  proof (cases "xs = []")
    case True
    then show ?thesis by (simp add: slot_builds_def slot_lam_def)
  next
    case False
    then have "1 \<le> length xs" by (cases xs) auto
    then show ?thesis using seq_builds[OF a] False
      by (auto simp: slot_builds_def slot_lam_def split: if_splits)
  qed
next
  case (PTuple xs)
  then have a: "\<forall>x \<in> set xs. slot_builds x" by simp
  show ?case
  proof (cases "xs = []")
    case True
    then show ?thesis by (simp add: slot_builds_def slot_lam_def)
  next
    case False
    then have "1 \<le> length xs" by (cases xs) auto
    then show ?thesis using seq_builds(2)[OF a] False
      by (auto simp: slot_builds_def slot_lam_def split: if_splits)
  qed
qed (auto simp: slot_builds_def slot_lam_def)


section \<open>Arity of the fold table\<close>

text \<open>
  C4 (as amended). Building the unwrap rule of a call succeeds exactly when the call has
  1, 2 or 3 positional arguments and every list or tuple nested in them has at most 3
  elements; in every other case (no positional argument, four or more, or a nested
  sequence of four or more elements) it fails with the KeyError of the fold table. An
  empty nested sequence does not fail: its rule is false, so it is passed through.
\<close>

theorem build_args_hook_arity:
  "((build_args_hook (PTuple args) (build_rule (PTuple args)) = Inl KeyError) =
      (length args = 0 \<or> 3 < length args \<or> \<not> list_all foldable args)) \<and>
   ((\<exists>h. build_args_hook (PTuple args) (build_rule (PTuple args)) = Inr h) =
      (1 \<le> length args \<and> length args \<le> 3 \<and> list_all foldable args))"
  using seq_builds(2)[of args] slot_builds_all
  by (cases args; auto split: if_splits)

theorem build_args_hook_arity_witness:
  "build_args_hook (PTuple [PInt 1, PInt 2, PInt 3, PInt 4])
     (build_rule (PTuple [PInt 1, PInt 2, PInt 3, PInt 4])) = Inl KeyError \<and>
   build_args_hook (PTuple []) (build_rule (PTuple [])) = Inl KeyError"
  using build_args_hook_arity [of "[PInt 1, PInt 2, PInt 3, PInt 4]"]
    build_args_hook_arity [of "[]"]
  by simp

text \<open>
  The claim as written fails on a call whose only argument is the empty list: the nested
  sequence has no element, yet the rule is built and applied, and the list is returned.
\<close>

theorem nested_empty_sequence_builds:
  "length ([] :: val list) = 0 \<and>
   build_args_hook (PTuple [PList []]) (build_rule (PTuple [PList []])) =
     Inr (Closure one_fold [Ident]) \<and>
   apply_lam (Closure one_fold [Ident]) (PTuple [PList []]) = Inr (PList [])"
  by (simp add: folds_def seq_index_def)

section \<open>Helper lemmas on applying the hook to the call it was built from\<close>

lemma build_lambdas_slots:
  "\<forall>x \<in> set xs. slot_ok x \<Longrightarrow>
   \<exists>ls. build_lambdas xs (map build_rule xs) = Inr ls \<and> length ls = length xs \<and>
     (\<forall>i < length xs. apply_lam (ls ! i) (xs ! i) = Inr (unwrapped (xs ! i)))"
proof (induction xs)
  case Nil
  then show ?case by simp
next
  case (Cons a xs)
  from Cons.prems obtain l where l: "slot_lam a (build_rule a) = Inr l"
    "apply_lam l a = Inr (unwrapped a)" by (auto simp: slot_ok_def)
  from Cons obtain ls where ls: "build_lambdas xs (map build_rule xs) = Inr ls"
    "length ls = length xs"
    "\<forall>i < length xs. apply_lam (ls ! i) (xs ! i) = Inr (unwrapped (xs ! i))" by auto
  have "build_lambdas (a # xs) (map build_rule (a # xs)) = Inr (l # ls)"
    using l(1) ls(1) by (simp only: list.map build_lambdas_Cons) simp
  moreover have "\<forall>i < length (a # xs). apply_lam ((l # ls) ! i) ((a # xs) ! i) = Inr (unwrapped ((a # xs) ! i))"
    using l(2) ls(3) by (auto simp: nth_Cons split: nat.splits)
  ultimately show ?case using ls(2) by auto
qed

lemma short_list_cases:
  assumes "xs \<noteq> []" "length xs \<le> 3"
  obtains (one) a where "xs = [a]" | (two) a b where "xs = [a, b]"
    | (three) a b c where "xs = [a, b, c]"
proof (cases xs)
  case Nil
  then show ?thesis using assms by simp
next
  case A: (Cons a ys)
  show ?thesis
  proof (cases ys)
    case Nil
    then show ?thesis using A one by simp
  next
    case B: (Cons b zs)
    show ?thesis
    proof (cases zs)
      case Nil
      then show ?thesis using A B two by simp
    next
      case C: (Cons c ws)
      then have "ws = []" using assms A B by simp
      then show ?thesis using A B C three by simp
    qed
  qed
qed

lemma seq_hook:
  assumes "\<forall>x \<in> set xs. slot_ok x" "xs \<noteq> []" "length xs \<le> 3"
  shows "\<exists>h. build_args_hook (PTuple xs) (RTuple (map build_rule xs)) = Inr h \<and>
             build_args_hook (PList xs) (RList (map build_rule xs)) = Inr h \<and>
             apply_lam h (PTuple xs) = Inr (unwrapped (PTuple xs)) \<and>
             apply_lam h (PList xs) = Inr (unwrapped (PList xs))"
proof -
  from build_lambdas_slots[OF assms(1)] obtain ls where ls: "build_lambdas xs (map build_rule xs) = Inr ls"
    "length ls = length xs"
    "\<forall>i < length xs. apply_lam (ls ! i) (xs ! i) = Inr (unwrapped (xs ! i))" by auto
  from assms(2,3) show ?thesis
  proof (cases xs rule: short_list_cases)
    case (one a)
    then obtain l0 where "ls = [l0]" using ls(2) by (cases ls) auto
    then show ?thesis using ls one by (simp add: folds_def seq_index_def)
  next
    case (two a b)
    then obtain l0 l1 where "ls = [l0, l1]" using ls(2) by (cases ls; simp; rename_tac ys; case_tac ys; simp)
    then show ?thesis using ls two by (simp add: folds_def seq_index_def All_less_Suc)
  next
    case (three a b c)
    then obtain l0 l1 l2 where "ls = [l0, l1, l2]" using ls(2) by (cases ls; simp; rename_tac ys; case_tac ys; simp; rename_tac zs; case_tac zs; simp)
    then show ?thesis using ls three by (simp add: folds_def seq_index_def All_less_Suc)
  qed
qed

lemma slot_ok_hookable: "foldable v \<Longrightarrow> has_children v \<Longrightarrow> slot_ok v"
proof (induction v)
  case (PList xs)
  show ?case proof (cases "xs = []")
    case True then show ?thesis by (simp add: slot_ok_def slot_lam_def)
  next
    case False
    have "\<forall>x \<in> set xs. slot_ok x" using PList by (auto simp: list_all_iff)
    from seq_hook[OF this False] PList.prems False show ?thesis
      by (auto simp: slot_ok_def slot_lam_def)
  qed
next
  case (PTuple xs)
  show ?case proof (cases "xs = []")
    case True then show ?thesis by (simp add: slot_ok_def slot_lam_def)
  next
    case False
    have "\<forall>x \<in> set xs. slot_ok x" using PTuple by (auto simp: list_all_iff)
    from seq_hook[OF this False] PTuple.prems False show ?thesis
      by (auto simp: slot_ok_def slot_lam_def)
  qed
qed (auto simp: slot_ok_def slot_lam_def)

lemma call_hook:
  assumes "args \<noteq> []" "length args \<le> 3" "list_all foldable args" "list_all has_children args"
  shows "\<exists>h. build_args_hook (PTuple args) (build_rule (PTuple args)) = Inr h \<and>
             apply_lam h (PTuple args) = Inr (unwrapped (PTuple args))"
proof -
  have "\<forall>x \<in> set args. slot_ok x" using assms(3,4) slot_ok_hookable by (auto simp: list_all_iff)
  from seq_hook[OF this assms(1,2)] show ?thesis by auto
qed

lemma unwrapped_seq:
  "2 \<le> length xs \<Longrightarrow> unwrapped (PTuple xs) = PTuple (map unwrapped xs)"
  "2 \<le> length xs \<Longrightarrow> unwrapped (PList xs) = PTuple (map unwrapped xs)"
  by (cases xs; simp; rename_tac ys; case_tac ys; simp)+

lemma unwrapped_plain: "\<not> truthy (build_rule v) \<Longrightarrow> unwrapped v = v"
  by (cases v) (auto split: if_splits)

lemma unwrapped_child: "build_rule v = RInt 1 \<Longrightarrow> has_children v \<Longrightarrow> py_child v = Inr (unwrapped v)"
  by (cases v) (auto split: if_splits)

lemma child_wrapped: "build_rule v = RInt 1 \<Longrightarrow> py_child v = Inr c \<Longrightarrow> unwrapped v = c"
  by (cases v) (auto split: if_splits option.splits)

section \<open>The transformed argument tuple\<close>

text \<open>
  C2 (as amended). For every call with 2 or 3 positional arguments, whose nested lists
  and tuples have at most 3 elements and whose wrapped values all have a child, and with
  a wrapped value at position k: the rule derived from the call is built, and applying it
  to the call gives a tuple of the same length in which slot k holds that value's child
  and every slot whose rule is false (a value classified as not wrapped, or an empty
  list or tuple) is identical to the input. Other wrapped slots are unwrapped as well,
  and a non-empty list or tuple is rebuilt.
\<close>

theorem unwrap_slot_k:
  assumes "length args = 2 \<or> length args = 3"
    and "list_all foldable args" and "list_all has_children args"
    and "k < length args" and "build_rule (args ! k) = RInt 1" and "py_child (args ! k) = Inr c"
  shows "\<exists>h ys. build_args_hook (PTuple args) (build_rule (PTuple args)) = Inr h \<and>
           apply_lam h (PTuple args) = Inr (PTuple ys) \<and>
           length ys = length args \<and> ys ! k = c \<and>
           (\<forall>j < length args. \<not> truthy (build_rule (args ! j)) \<longrightarrow> ys ! j = args ! j)"
proof -
  have ne: "args \<noteq> []" and le: "length args \<le> 3" and two: "2 \<le> length args"
    using assms(1) by auto
  from call_hook[OF ne le assms(2,3)] obtain h where
    h: "build_args_hook (PTuple args) (build_rule (PTuple args)) = Inr h"
       "apply_lam h (PTuple args) = Inr (unwrapped (PTuple args))" by auto
  let ?ys = "map unwrapped args"
  have "apply_lam h (PTuple args) = Inr (PTuple ?ys)" using h(2) unwrapped_seq(1)[OF two] by simp
  moreover have "?ys ! k = c" using assms(4,5,6) child_wrapped by simp
  moreover have "\<forall>j < length args. \<not> truthy (build_rule (args ! j)) \<longrightarrow> ?ys ! j = args ! j"
    using unwrapped_plain by simp
  ultimately show ?thesis using h(1) by auto
qed


theorem unwrap_slot_k_witness:
  "\<exists>h ys. build_args_hook (PTuple [PPointer (PInt 2), PInt 5])
             (build_rule (PTuple [PPointer (PInt 2), PInt 5])) = Inr h \<and>
     apply_lam h (PTuple [PPointer (PInt 2), PInt 5]) = Inr (PTuple ys) \<and>
     length ys = 2 \<and> ys ! 0 = PInt 2 \<and> ys ! 1 = PInt 5"
  using unwrap_slot_k [of "[PPointer (PInt 2), PInt 5]" 0 "PInt 2"]
  by (auto simp: All_less_Suc)

text \<open>
  The claim as written fails: with four positional arguments no tuple is produced; with
  two pointers the slot other than k does not hold the input argument; and a list in
  another slot comes back as a tuple.
\<close>

theorem other_slots_not_identical:
  "build_args_hook (PTuple [PPointer (PInt 1), PInt 2, PInt 3, PInt 4])
     (build_rule (PTuple [PPointer (PInt 1), PInt 2, PInt 3, PInt 4])) = Inl KeyError \<and>
   build_args_hook (PTuple [PPointer (PInt 1), PPointer (PInt 2)])
     (build_rule (PTuple [PPointer (PInt 1), PPointer (PInt 2)])) =
     Inr (Closure two_fold [Child, Child]) \<and>
   apply_lam (Closure two_fold [Child, Child]) (PTuple [PPointer (PInt 1), PPointer (PInt 2)]) =
     Inr (PTuple [PInt 1, PInt 2]) \<and>
   PInt 2 \<noteq> PPointer (PInt 2)"
  by (simp add: folds_def seq_index_def)

section \<open>Sequence arguments\<close>

text \<open>
  C3 (as amended). For every call with 2 or 3 positional arguments (nested sequences of
  at most 3 elements, wrapped values with a child) and every list or tuple of 2 or 3
  elements among them: applying the derived rule rebuilds that argument as a tuple,
  whether it was a list or a tuple, of the same length and in the same order, in which
  each element classified as wrapped (rule 1) is replaced by its child and each element
  whose rule is false is the input element.
\<close>

theorem sequence_rebuilt_as_tuple:
  assumes "length args = 2 \<or> length args = 3"
    and "list_all foldable args" and "list_all has_children args"
    and "j < length args" and "args ! j = PList xs \<or> args ! j = PTuple xs"
    and "length xs = 2 \<or> length xs = 3"
  shows "\<exists>h ys zs. build_args_hook (PTuple args) (build_rule (PTuple args)) = Inr h \<and>
           apply_lam h (PTuple args) = Inr (PTuple ys) \<and> length ys = length args \<and>
           ys ! j = PTuple zs \<and> length zs = length xs \<and>
           (\<forall>i < length xs.
              (build_rule (xs ! i) = RInt 1 \<longrightarrow> py_child (xs ! i) = Inr (zs ! i)) \<and>
              (\<not> truthy (build_rule (xs ! i)) \<longrightarrow> zs ! i = xs ! i))"
proof -
  have ne: "args \<noteq> []" and le: "length args \<le> 3" and two: "2 \<le> length args"
    using assms(1) by auto
  have two': "2 \<le> length xs" using assms(6) by auto
  from call_hook[OF ne le assms(2,3)] obtain h where
    h: "build_args_hook (PTuple args) (build_rule (PTuple args)) = Inr h"
       "apply_lam h (PTuple args) = Inr (unwrapped (PTuple args))" by auto
  let ?ys = "map unwrapped args"
  let ?zs = "map unwrapped xs"
  have a: "apply_lam h (PTuple args) = Inr (PTuple ?ys)" using h(2) unwrapped_seq(1)[OF two] by simp
  have b: "?ys ! j = PTuple ?zs" using assms(4,5) unwrapped_seq[OF two'] by auto
  have "args ! j \<in> set args" using assms(4) by simp
  then have "has_children (args ! j)" using assms(3) by (simp add: list_all_iff)
  then have hc: "list_all has_children xs" using assms(5) by auto
  have c: "\<forall>i < length xs.
              (build_rule (xs ! i) = RInt 1 \<longrightarrow> py_child (xs ! i) = Inr (?zs ! i)) \<and>
              (\<not> truthy (build_rule (xs ! i)) \<longrightarrow> ?zs ! i = xs ! i)"
    using hc unwrapped_plain unwrapped_child by (simp add: list_all_length)
  show ?thesis using h(1) a b c by (intro exI[of _ h] exI[of _ ?ys] exI[of _ ?zs]) simp
qed


theorem sequence_rebuilt_as_tuple_witness:
  "\<exists>h ys zs. build_args_hook (PTuple [PList [PPointer (PInt 1), PInt 2], PInt 3])
             (build_rule (PTuple [PList [PPointer (PInt 1), PInt 2], PInt 3])) = Inr h \<and>
     apply_lam h (PTuple [PList [PPointer (PInt 1), PInt 2], PInt 3]) = Inr (PTuple ys) \<and>
     ys ! 0 = PTuple zs \<and> length zs = 2 \<and> zs ! 0 = PInt 1 \<and> zs ! 1 = PInt 2"
  using sequence_rebuilt_as_tuple
    [of "[PList [PPointer (PInt 1), PInt 2], PInt 3]" 0 "[PPointer (PInt 1), PInt 2]"]
  by (auto simp: All_less_Suc)

text \<open>
  The claim as written fails: a list of a pointer and a plain value comes back as a
  tuple, not as a list.
\<close>

theorem list_becomes_tuple:
  "build_args_hook (PTuple [PList [PPointer (PInt 1), PInt 2], PInt 3])
     (build_rule (PTuple [PList [PPointer (PInt 1), PInt 2], PInt 3])) =
     Inr (Closure two_fold [Closure two_fold [Child, Ident], Ident]) \<and>
   apply_lam (Closure two_fold [Closure two_fold [Child, Ident], Ident])
     (PTuple [PList [PPointer (PInt 1), PInt 2], PInt 3]) =
     Inr (PTuple [PTuple [PInt 1, PInt 2], PInt 3]) \<and>
   PTuple [PInt 1, PInt 2] \<noteq> PList [PInt 1, PInt 2]"
  by (simp add: folds_def seq_index_def)

section \<open>The dispatch trampoline\<close>

text \<open>
  The object \<open>attr\<close> given to \<open>get_overloaded_method\<close>: it is the key of the cache and
  it is what the trampoline calls. It is either the name of an operation (a string) or a
  callable object, given by its identity; \<open>funs\<close> below gives what each callable returns.
\<close>

datatype pyattr = AttrName string | AttrCallable nat

text \<open>What the hook prints: \<open>print("get overloaded", attr)\<close> and \<open>print(rule)\<close>.\<close>

datatype out = OutGetOverloaded pyattr | OutRule rule

text \<open>
  The state the trampoline reads and writes: the cache of the hook, and the output. The
  attribute \<open>args_hook_for_overloaded_attr\<close> is \<open>None\<close> on a hook on which
  \<open>__init__\<close> returned before setting it (the torch module was already hooked);
  reading it then raises AttributeError.
\<close>

record hook_self =
  args_hook_for_overloaded_attr :: "(pyattr \<rightharpoonup> lam) option"
  stdout :: "out list"

text \<open>
  \<open>attr(*new_args)\<close>: the transformed arguments are unpacked, then \<open>attr\<close> is called;
  a string is not callable.
\<close>

definition call_attr :: "(nat \<Rightarrow> val list \<Rightarrow> error + val) \<Rightarrow> pyattr \<Rightarrow> val \<Rightarrow> error + val" where
  "call_attr funs attr new_args =
     (case py_iter new_args of Inl e \<Rightarrow> Inl e
      | Inr xs \<Rightarrow> (case attr of AttrName n \<Rightarrow> Inl TypeError | AttrCallable i \<Rightarrow> funs i xs))"

text \<open>
  \<open>overloaded_attr(*args, **kwargs)\<close>; the keyword arguments are not used. The result is
  the value returned or the exception raised, with the state of the hook after the call.
\<close>

definition overloaded_attr ::
  "(nat \<Rightarrow> val list \<Rightarrow> error + val) \<Rightarrow> pyattr \<Rightarrow> val list \<Rightarrow> (string \<times> val) list \<Rightarrow>
   hook_self \<Rightarrow> (error + val) \<times> hook_self" where
  "overloaded_attr funs attr args kwargs s =
     (case args_hook_for_overloaded_attr s of
        None \<Rightarrow> (Inl AttributeError, s)
      | Some cache \<Rightarrow>
          (case cache attr of
             None \<Rightarrow>
               (let rule = build_rule (PTuple args);
                    s1 = s\<lparr>stdout := stdout s @ [OutRule rule]\<rparr>
                in case build_args_hook (PTuple args) rule of
                     Inl e \<Rightarrow> (Inl e, s1)
                   | Inr args_hook_function \<Rightarrow>
                       (let s2 = s1\<lparr>args_hook_for_overloaded_attr :=
                                     Some (cache(attr \<mapsto> args_hook_function))\<rparr>
                        in case apply_lam args_hook_function (PTuple args) of
                             Inl e \<Rightarrow> (Inl e, s2)
                           | Inr new_args \<Rightarrow> (call_attr funs attr new_args, s2)))
           | Some hook_args \<Rightarrow>
               (case apply_lam hook_args (PTuple args) of
                  Inl e \<Rightarrow> (Inl e, s)
                | Inr new_args \<Rightarrow> (call_attr funs attr new_args, s))))"

definition get_overloaded_method :: "pyattr \<Rightarrow> hook_self \<Rightarrow> hook_self" where
  "get_overloaded_method attr s = s\<lparr>stdout := stdout s @ [OutGetOverloaded attr]\<rparr>"

text \<open>A run of calls to the trampoline of \<open>attr\<close>, one after the other.\<close>

fun run_calls ::
  "(nat \<Rightarrow> val list \<Rightarrow> error + val) \<Rightarrow> pyattr \<Rightarrow> (val list \<times> (string \<times> val) list) list \<Rightarrow>
   hook_self \<Rightarrow> hook_self" where
  "run_calls funs attr [] s = s"
| "run_calls funs attr ((args, kwargs) # rest) s =
     run_calls funs attr rest (snd (overloaded_attr funs attr args kwargs s))"

text \<open>The number of rule derivations so far: each one prints its rule.\<close>

definition derivations :: "hook_self \<Rightarrow> nat" where
  "derivations s = length (filter (\<lambda>out. case out of OutRule r \<Rightarrow> True | _ \<Rightarrow> False) (stdout s))"

text \<open>For concrete runs: callables that return the tuple of their arguments.\<close>

definition echo :: "nat \<Rightarrow> val list \<Rightarrow> error + val" where
  "echo i xs = Inr (PTuple xs)"

definition empty_hook :: hook_self where
  "empty_hook = \<lparr>args_hook_for_overloaded_attr = Some Map.empty, stdout = []\<rparr>"

text \<open>
  Two values have the same shape when they are lists of elements of the same shapes, or
  tuples of elements of the same shapes, or both wrapped, or both neither sequences nor
  wrapped.
\<close>

fun is_wrapped :: "val \<Rightarrow> bool" where
  "is_wrapped (PPointer c) = True"
| "is_wrapped (PObj n c) = (n = ''LogTensor'')"
| "is_wrapped v = False"

fun same_shape :: "val \<Rightarrow> val \<Rightarrow> bool" where
  "same_shape (PList xs) (PList ys) = list_all2 same_shape xs ys"
| "same_shape (PTuple xs) (PTuple ys) = list_all2 same_shape xs ys"
| "same_shape (PList xs) v = False"
| "same_shape (PTuple xs) v = False"
| "same_shape v (PList ys) = False"
| "same_shape v (PTuple ys) = False"
| "same_shape a b = (is_wrapped a = is_wrapped b)"

section \<open>Helper lemmas on the trampoline\<close>

lemma cached_call:
  "args_hook_for_overloaded_attr s = Some cache \<Longrightarrow> cache attr = Some h \<Longrightarrow>
   overloaded_attr funs attr args kwargs s =
     ((case apply_lam h (PTuple args) of Inl e \<Rightarrow> Inl e
       | Inr new_args \<Rightarrow> call_attr funs attr new_args), s)"
  by (simp add: overloaded_attr_def split: sum.splits)

lemma cached_run:
  "args_hook_for_overloaded_attr s = Some cache \<Longrightarrow> cache attr = Some h \<Longrightarrow>
   run_calls funs attr argss s = s"
  by (induction argss) (auto simp: cached_call)

lemma no_cache_call:
  "args_hook_for_overloaded_attr s = None \<Longrightarrow>
   overloaded_attr funs attr args kwargs s = (Inl AttributeError, s)"
  by (simp add: overloaded_attr_def)

lemma no_cache_run:
  "args_hook_for_overloaded_attr s = None \<Longrightarrow> run_calls funs attr argss s = s"
  by (induction argss) (auto simp: no_cache_call)

lemma first_call:
  "args_hook_for_overloaded_attr s = Some cache \<Longrightarrow> cache attr = None \<Longrightarrow>
   build_args_hook (PTuple args) (build_rule (PTuple args)) = Inr h \<Longrightarrow>
   overloaded_attr funs attr args kwargs s =
     ((case apply_lam h (PTuple args) of Inl e \<Rightarrow> Inl e
       | Inr new_args \<Rightarrow> call_attr funs attr new_args),
      s\<lparr>stdout := stdout s @ [OutRule (build_rule (PTuple args))],
        args_hook_for_overloaded_attr := Some (cache(attr \<mapsto> h))\<rparr>)"
  by (simp add: overloaded_attr_def Let_def split: sum.splits)


lemma same_shape_rule: "same_shape a b \<Longrightarrow> build_rule a = build_rule b"
proof (induction a b rule: same_shape.induct)
  case (1 xs ys)
  then show ?case by (auto simp: list_all2_conv_all_nth intro!: nth_equalityI)
next
  case (2 xs ys)
  then show ?case by (auto simp: list_all2_conv_all_nth intro!: nth_equalityI)
qed auto



section \<open>What the trampoline calls\<close>




section \<open>Rule caching\<close>

text \<open>
  C5 (as amended). When the first call of the trampoline of \<open>attr\<close> builds its rule,
  the rule is derived once: that call prints and caches the rule, and every later call to
  \<open>attr\<close> leaves the cache and the output as they are, so that after any run of calls
  one derivation more than before has been made. Once a rule is cached for \<open>attr\<close>, no
  call to it derives again; on a hook without a cache no call derives anything. Two argument tuples of the same shape give the same rule.
  (A call on which building fails caches nothing.)
\<close>

theorem rule_derived_once_when_built:
  "(args_hook_for_overloaded_attr s = Some cache \<longrightarrow> cache attr = None \<longrightarrow>
    build_args_hook (PTuple args) (build_rule (PTuple args)) = Inr h \<longrightarrow>
      run_calls funs attr ((args, kwargs) # later) s =
        s\<lparr>stdout := stdout s @ [OutRule (build_rule (PTuple args))],
          args_hook_for_overloaded_attr := Some (cache(attr \<mapsto> h))\<rparr> \<and>
      derivations (run_calls funs attr ((args, kwargs) # later) s) = derivations s + 1) \<and>
   (args_hook_for_overloaded_attr s = Some cache \<longrightarrow> cache attr = Some h \<longrightarrow>
      run_calls funs attr later s = s) \<and>
   (args_hook_for_overloaded_attr s = None \<longrightarrow> run_calls funs attr later s = s) \<and>
   (same_shape (PTuple args) (PTuple args') \<longrightarrow> build_rule (PTuple args) = build_rule (PTuple args'))"
proof (intro conjI impI)
  assume s: "args_hook_for_overloaded_attr s = Some cache" and a: "cache attr = None"
    and b: "build_args_hook (PTuple args) (build_rule (PTuple args)) = Inr h"
  let ?s' = "s\<lparr>stdout := stdout s @ [OutRule (build_rule (PTuple args))],
          args_hook_for_overloaded_attr := Some (cache(attr \<mapsto> h))\<rparr>"
  have "args_hook_for_overloaded_attr ?s' = Some (cache(attr \<mapsto> h))"
    and "(cache(attr \<mapsto> h)) attr = Some h" by simp_all
  from cached_run[OF this] first_call[OF s a b]
  show r: "run_calls funs attr ((args, kwargs) # later) s = ?s'" by simp
  show "derivations (run_calls funs attr ((args, kwargs) # later) s) = derivations s + 1"
    by (simp only: r) (simp add: derivations_def)
next
  assume "args_hook_for_overloaded_attr s = Some cache" "cache attr = Some h"
  then show "run_calls funs attr later s = s" by (rule cached_run)
next
  assume "args_hook_for_overloaded_attr s = None"
  then show "run_calls funs attr later s = s" by (rule no_cache_run)
next
  assume "same_shape (PTuple args) (PTuple args')"
  then show "build_rule (PTuple args) = build_rule (PTuple args')" by (rule same_shape_rule)
qed

theorem rule_derived_once_when_built_witness:
  "run_calls echo (AttrCallable 0)
      [([PPointer (PInt 2), PInt 5], []), ([PInt 1, PInt 2], []), ([PInt 1], [])] empty_hook =
     \<lparr>args_hook_for_overloaded_attr = Some [AttrCallable 0 \<mapsto> Closure two_fold [Child, Ident]],
      stdout = [OutRule (RTuple [RInt 1, RInt 0])]\<rparr> \<and>
   build_rule (PTuple [PPointer (PInt 2), PInt 5]) = build_rule (PTuple [PPointer PNone, PNone])"
  using rule_derived_once_when_built [of empty_hook Map.empty "AttrCallable 0"
      "[PPointer (PInt 2), PInt 5]" "Closure two_fold [Child, Ident]"
      echo "[]" "[([PInt 1, PInt 2], []), ([PInt 1], [])]" "[PPointer PNone, PNone]"]
  by (simp add: empty_hook_def folds_def)

text \<open>
  The claim as written fails when building fails: two calls with four arguments derive
  the rule twice.
\<close>

theorem failed_build_derives_again:
  "stdout (run_calls echo (AttrCallable 0)
      [([PInt 1, PInt 2, PInt 3, PInt 4], []), ([PInt 1, PInt 2, PInt 3, PInt 4], [])] empty_hook) =
     [OutRule (RTuple [RInt 0, RInt 0, RInt 0, RInt 0]), OutRule (RTuple [RInt 0, RInt 0, RInt 0, RInt 0])] \<and>
   derivations (run_calls echo (AttrCallable 0)
      [([PInt 1, PInt 2, PInt 3, PInt 4], []), ([PInt 1, PInt 2, PInt 3, PInt 4], [])] empty_hook) = 2"
  by (simp add: overloaded_attr_def Let_def folds_def empty_hook_def derivations_def)

section \<open>Types and their attributes\<close>

text \<open>
  The objects bound to the attributes of a type: \<open>None\<close>, or an object given by what
  \<open>inspect.ismethoddescriptor\<close> and \<open>isinstance(lit, types.FunctionType)\<close> say of it
  (at most one of the two holds), its \<open>__qualname__\<close> when it has one, and a label for
  its identity.
\<close>

datatype kind = MethodDescriptor | PlainFunction | PropertyObject | OtherObject

datatype pyobj = PyNone | PyObj kind "string option" string

text \<open>
  A type, by the attributes that \<open>dir\<close>, \<open>hasattr\<close>, \<open>getattr\<close> and \<open>setattr\<close> see:
  an association list from names to objects. \<open>dir\<close> lists the names sorted.
\<close>

type_synonym pytype = "(string \<times> pyobj) list"

definition py_dir :: "pytype \<Rightarrow> string list" where
  "py_dir t = sort (remdups (map fst t))"

definition py_getattr :: "pytype \<Rightarrow> string \<Rightarrow> error + pyobj" where
  "py_getattr t attr = (case map_of t attr of None \<Rightarrow> Inl AttributeError | Some v \<Rightarrow> Inr v)"

definition py_hasattr :: "pytype \<Rightarrow> string \<Rightarrow> bool" where
  "py_hasattr t attr = (case py_getattr t attr of Inl e \<Rightarrow> False | Inr v \<Rightarrow> True)"

definition py_setattr :: "pytype \<Rightarrow> string \<Rightarrow> pyobj \<Rightarrow> pytype" where
  "py_setattr t attr v = AList.update attr v t"

fun ismethoddescriptor :: "pyobj \<Rightarrow> bool" where
  "ismethoddescriptor (PyObj MethodDescriptor q i) = True"
| "ismethoddescriptor v = False"

fun is_function :: "pyobj \<Rightarrow> bool" where
  "is_function (PyObj PlainFunction q i) = True"
| "is_function v = False"

fun qualname :: "pyobj \<Rightarrow> error + string" where
  "qualname (PyObj k (Some q) i) = Inr q"
| "qualname v = Inl AttributeError"

text \<open>
  \<open>starts_with p s\<close>: the string \<open>s\<close> begins with \<open>p\<close>; \<open>contains p s\<close>:
  \<open>p in s\<close>.
\<close>

fun starts_with :: "string \<Rightarrow> string \<Rightarrow> bool" where
  "starts_with [] s = True"
| "starts_with (p # ps) [] = False"
| "starts_with (p # ps) (c # cs) = (p = c \<and> starts_with ps cs)"

fun contains :: "string \<Rightarrow> string \<Rightarrow> bool" where
  "contains p [] = (p = [])"
| "contains p (c # cs) = (starts_with p (c # cs) \<or> contains p cs)"

text \<open>
  \<open>"HookService" in lit.__qualname__\<close>, false when the attribute is missing; and
  \<open>re.match("native*", attr) is not None\<close>: the pattern is \<open>nativ\<close> followed by any
  number of \<open>e\<close>, matched at the start of the name, so it matches exactly the names that
  begin with \<open>nativ\<close>.
\<close>

definition is_service_func :: "pyobj \<Rightarrow> bool" where
  "is_service_func lit = (case qualname lit of Inl e \<Rightarrow> False | Inr q \<Rightarrow> contains ''HookService'' q)"

definition is_overloaded :: "string \<Rightarrow> bool" where
  "is_overloaded attr = starts_with ''nativ'' attr"

text \<open>
  \<open>_which_methods_should_we_auto_overload\<close>: \<open>should_overload\<close> is the body of the loop
  for one name; \<open>exclude\<close> is \<open>syft.torch.exclude\<close> and \<open>object_dir\<close> is
  \<open>dir(object)\<close>, both defined outside the sources and taken as parameters.
\<close>

definition should_overload :: "string list \<Rightarrow> string list \<Rightarrow> pytype \<Rightarrow> string \<Rightarrow> bool" where
  "should_overload exclude object_dir tensor_type attr =
     (if attr \<in> set exclude then False
      else if \<not> py_hasattr tensor_type attr then False
      else (case py_getattr tensor_type attr of
              Inl e \<Rightarrow> False
            | Inr lit \<Rightarrow>
                (let is_base = attr \<in> set object_dir;
                     is_desc = ismethoddescriptor lit;
                     is_func = is_function lit
                 in (is_desc \<or> (is_func \<and> \<not> is_service_func lit)) \<and> \<not> is_base
                      \<and> \<not> is_overloaded attr)))"

definition which_methods_should_we_auto_overload ::
  "string list \<Rightarrow> string list \<Rightarrow> pytype \<Rightarrow> pytype \<Rightarrow> string list" where
  "which_methods_should_we_auto_overload exclude object_dir tensor_type syft_type =
     filter (should_overload exclude object_dir tensor_type) (py_dir syft_type)"

text \<open>\<open>_rename_native_functions\<close>, over the list \<open>to_auto_overload[tensor_type]\<close>.\<close>

definition native_name :: "string \<Rightarrow> string" where
  "native_name attr = ''native_'' @ attr"

fun rename_native_functions :: "string list \<Rightarrow> pytype \<Rightarrow> error option \<times> pytype" where
  "rename_native_functions [] tensor_type = (None, tensor_type)"
| "rename_native_functions (attr # rest) tensor_type =
     (case py_getattr tensor_type attr of
        Inl e \<Rightarrow> (Some e, tensor_type)
      | Inr lit \<Rightarrow>
          rename_native_functions rest
            (py_setattr
               (if native_name attr \<notin> set (py_dir tensor_type)
                then py_setattr tensor_type (native_name attr) lit else tensor_type)
               attr PyNone))"

text \<open>
  \<open>_add_methods_from__torch_tensor\<close>: the names come from \<open>dir(syft_type)\<close>, the
  objects from the global \<open>TorchTensor\<close>, which is a parameter here.
\<close>

definition mixin_exclude :: "string list" where
  "mixin_exclude =
     [''__class__'', ''__delattr__'', ''__dir__'', ''__doc__'', ''__dict__'', ''__format__'',
      ''__getattribute__'', ''__hash__'', ''__init__'', ''__init_subclass__'', ''__weakref__'',
      ''__ne__'', ''__new__'', ''__reduce__'', ''__reduce_ex__'', ''__setattr__'',
      ''__sizeof__'', ''__subclasshook__'', ''_get_type'', ''__str__'', ''__repr__'',
      ''__eq__'', ''__gt__'', ''__ge__'', ''__lt__'', ''__le__'']"

fun copy_attrs :: "pytype \<Rightarrow> string list \<Rightarrow> pytype \<Rightarrow> error option \<times> pytype" where
  "copy_attrs TorchTensor [] tensor_type = (None, tensor_type)"
| "copy_attrs TorchTensor (attr # rest) tensor_type =
     (if attr \<notin> set mixin_exclude
      then (case py_getattr TorchTensor attr of
              Inl e \<Rightarrow> (Some e, tensor_type)
            | Inr v \<Rightarrow> copy_attrs TorchTensor rest (py_setattr tensor_type attr v))
      else copy_attrs TorchTensor rest tensor_type)"

definition add_methods_from_torch_tensor ::
  "pytype \<Rightarrow> pytype \<Rightarrow> pytype \<Rightarrow> error option \<times> pytype" where
  "add_methods_from_torch_tensor TorchTensor tensor_type syft_type =
     copy_attrs TorchTensor (py_dir syft_type) tensor_type"

text \<open>One step of the renaming loop, and the binding the loop leaves under the native name.\<close>

definition rename_one :: "pytype \<Rightarrow> string \<Rightarrow> pyobj \<Rightarrow> pytype" where
  "rename_one tensor_type attr lit =
     py_setattr (if native_name attr \<notin> set (py_dir tensor_type)
                then py_setattr tensor_type (native_name attr) lit else tensor_type) attr PyNone"

definition preserved :: "pytype \<Rightarrow> string \<Rightarrow> pyobj option" where
  "preserved t attr = (case map_of t (native_name attr) of None \<Rightarrow> map_of t attr | Some v \<Rightarrow> Some v)"

text \<open>A small tensor type, reference type and pointer type, for concrete runs.\<close>

definition tensor0 :: pytype where
  "tensor0 = [(''add'', PyObj MethodDescriptor (Some ''_TensorBase.add'') ''add0''),
   (''__init__'', PyObj MethodDescriptor (Some ''object.__init__'') ''init0''),
   (''size'', PyObj MethodDescriptor (Some ''_TensorBase.size'') ''size0''),
   (''native_mul'', PyObj MethodDescriptor (Some ''_TensorBase.mul'') ''mul0''),
   (''mul'', PyObj PlainFunction (Some ''TorchTensor.mul'') ''mul1'')]"

definition syft0 :: pytype where
  "syft0 = [(''add'', PyObj PlainFunction (Some ''TorchTensor.add'') ''add1''),
   (''mul'', PyObj PlainFunction (Some ''TorchTensor.mul'') ''mul1''),
   (''send'', PyObj PlainFunction (Some ''TorchTensor.send'') ''send1''),
   (''__init__'', PyObj PlainFunction (Some ''TorchTensor.__init__'') ''init1''),
   (''size'', PyObj PlainFunction (Some ''TorchTensor.size'') ''size1'')]"

definition pointer0 :: pytype where
  "pointer0 = [(''__init__'', PyObj PlainFunction (Some ''PointerTensor.__init__'') ''init2'')]"

section \<open>Helper lemmas on types\<close>

lemma set_py_dir: "set (py_dir t) = fst ` set t"
  by (simp add: py_dir_def)

lemma in_py_dir: "attr \<in> set (py_dir t) \<longleftrightarrow> map_of t attr \<noteq> None"
  by (simp add: set_py_dir map_of_eq_None_iff)

lemma map_of_setattr: "map_of (py_setattr t attr v) = (map_of t)(attr \<mapsto> v)"
  by (simp add: py_setattr_def update_conv')

lemma starts_with_shorter: "starts_with (p @ q) s \<Longrightarrow> starts_with p s"
  by (induction p s rule: starts_with.induct) auto

lemma native_name_overloaded: "is_overloaded (native_name attr)"
  by (simp add: is_overloaded_def native_name_def)

lemma which0: "which_methods_should_we_auto_overload [''size''] [''__init__''] tensor0 syft0 = [''add'', ''mul'']"
  by (simp add: which_methods_should_we_auto_overload_def tensor0_def syft0_def py_dir_def should_overload_def py_hasattr_def py_getattr_def is_service_func_def is_overloaded_def)

lemma rename_Cons:
  "rename_native_functions (attr # rest) t =
     (case map_of t attr of None \<Rightarrow> (Some AttributeError, t)
      | Some lit \<Rightarrow> rename_native_functions rest (rename_one t attr lit))"
  by (simp add: py_getattr_def rename_one_def split: option.splits)

lemma map_of_rename_one:
  "map_of (rename_one t attr lit) =
     (map_of t)(native_name attr := (case map_of t (native_name attr) of None \<Rightarrow> Some lit | Some v \<Rightarrow> Some v),
                attr \<mapsto> PyNone)"
  by (auto simp: rename_one_def map_of_setattr in_py_dir fun_eq_iff split: option.splits)

lemma native_name_inj: "native_name a = native_name b \<longleftrightarrow> a = b"
  by (simp add: native_name_def)

lemma rename_native_functions_maps:
  assumes "\<forall>a \<in> set as. \<not> is_overloaded a" "\<forall>a \<in> set as. map_of t a \<noteq> None"
  shows "fst (rename_native_functions as t) = None \<and>
         (\<forall>a \<in> set as. map_of (snd (rename_native_functions as t)) a = Some PyNone \<and>
            map_of (snd (rename_native_functions as t)) (native_name a) = preserved t a) \<and>
         (\<forall>n. n \<notin> set as \<longrightarrow> n \<notin> native_name ` set as \<longrightarrow>
            map_of (snd (rename_native_functions as t)) n = map_of t n)"
  using assms
proof (induction as arbitrary: t)
  case Nil
  then show ?case by simp
next
  case (Cons b as)
  from Cons.prems obtain lit where lit: "map_of t b = Some lit" by auto
  let ?t1 = "rename_one t b lit"
  have nb: "\<not> is_overloaded b" and nas: "\<forall>a \<in> set as. \<not> is_overloaded a" using Cons.prems by auto
  have ne: "\<And>a. a \<in> set (b # as) \<Longrightarrow> a \<noteq> native_name b"
    using Cons.prems(1) native_name_overloaded by metis
  have ne2: "\<And>a. a \<in> set (b # as) \<Longrightarrow> b \<noteq> native_name a"
    using nb native_name_overloaded by metis
  have dom1: "\<forall>a \<in> set as. map_of ?t1 a \<noteq> None"
    using Cons.prems(2) by (auto simp: map_of_rename_one split: option.splits)
  note IH = Cons.IH[OF nas dom1]
  have step: "rename_native_functions (b # as) t = rename_native_functions as ?t1"
    using lit by (simp only: rename_Cons) simp
  have pb: "map_of ?t1 (native_name b) = preserved t b"
    using lit ne2[of b] by (auto simp: map_of_rename_one preserved_def split: option.splits)
  have pa: "\<And>a. a \<in> set as \<Longrightarrow> a \<noteq> b \<Longrightarrow> preserved ?t1 a = preserved t a"
    using ne ne2 by (auto simp: map_of_rename_one preserved_def native_name_inj split: option.splits)
  have pbb: "preserved ?t1 b = preserved t b"
    using pb lit by (auto simp: preserved_def split: option.splits)
  show ?case
  proof (intro conjI ballI allI impI)
    show "fst (rename_native_functions (b # as) t) = None" unfolding step using IH by simp
  next
    fix a assume a: "a \<in> set (b # as)"
    show "map_of (snd (rename_native_functions (b # as) t)) a = Some PyNone"
    proof (cases "a \<in> set as")
      case True
      then show ?thesis unfolding step using IH by simp
    next
      case False
      then have ab: "a = b" using a by simp
      have "b \<notin> native_name ` set as" using ne2 by auto
      then have "map_of (snd (rename_native_functions as ?t1)) b = map_of ?t1 b"
        using IH False ab by simp
      then show ?thesis unfolding step using ab by (simp add: map_of_rename_one)
    qed
  next
    fix a assume a: "a \<in> set (b # as)"
    show "map_of (snd (rename_native_functions (b # as) t)) (native_name a) = preserved t a"
    proof (cases "a \<in> set as")
      case True
      then have "map_of (snd (rename_native_functions as ?t1)) (native_name a) = preserved ?t1 a"
        using IH by simp
      moreover have "preserved ?t1 a = preserved t a" using pa[OF True] pbb by (cases "a = b") auto
      ultimately show ?thesis unfolding step by simp
    next
      case False
      then have ab: "a = b" using a by simp
      have "native_name b \<notin> set as" using ne by auto
      moreover have "native_name b \<notin> native_name ` set as" using False ab by (auto simp: native_name_inj)
      ultimately have "map_of (snd (rename_native_functions as ?t1)) (native_name b) = map_of ?t1 (native_name b)"
        using IH by simp
      then show ?thesis unfolding step using ab pb by simp
    qed
  next
    fix n assume n: "n \<notin> set (b # as)" "n \<notin> native_name ` set (b # as)"
    then have "map_of (snd (rename_native_functions as ?t1)) n = map_of ?t1 n" using IH by simp
    moreover have "map_of ?t1 n = map_of t n" using n by (auto simp: map_of_rename_one)
    ultimately show "map_of (snd (rename_native_functions (b # as) t)) n = map_of t n"
      unfolding step by simp
  qed
qed

lemma rename0:
  "rename_native_functions [''add'', ''mul''] tensor0 =
   (None, [(''add'', PyNone),
   (''__init__'', PyObj MethodDescriptor (Some ''object.__init__'') ''init0''),
   (''size'', PyObj MethodDescriptor (Some ''_TensorBase.size'') ''size0''),
   (''native_mul'', PyObj MethodDescriptor (Some ''_TensorBase.mul'') ''mul0''),
   (''mul'', PyNone),
   (''native_add'', PyObj MethodDescriptor (Some ''_TensorBase.add'') ''add0'')])"
  by (simp add: tensor0_def py_getattr_def py_setattr_def py_dir_def native_name_def)

lemma copy_attrs_maps:
  assumes "\<forall>a \<in> set as. a \<notin> set mixin_exclude \<longrightarrow> map_of TorchTensor a \<noteq> None"
  shows "fst (copy_attrs TorchTensor as t) = None \<and>
         (\<forall>n. map_of (snd (copy_attrs TorchTensor as t)) n =
                (if n \<in> set as \<and> n \<notin> set mixin_exclude then map_of TorchTensor n else map_of t n))"
  using assms
proof (induction as arbitrary: t)
  case Nil
  then show ?case by simp
next
  case (Cons a as)
  have rest: "\<forall>a \<in> set as. a \<notin> set mixin_exclude \<longrightarrow> map_of TorchTensor a \<noteq> None"
    using Cons.prems by simp
  show ?case
  proof (cases "a \<in> set mixin_exclude")
    case True
    then have "copy_attrs TorchTensor (a # as) t = copy_attrs TorchTensor as t" by simp
    then show ?thesis using Cons.IH[OF rest, of t] True by auto
  next
    case False
    then obtain v where v: "map_of TorchTensor a = Some v" using Cons.prems by auto
    then have "copy_attrs TorchTensor (a # as) t = copy_attrs TorchTensor as (py_setattr t a v)"
      using False by (simp add: py_getattr_def)
    then show ?thesis using Cons.IH[OF rest, of "py_setattr t a v"] False v
      by (auto simp: map_of_setattr)
  qed
qed

section \<open>The eligible names\<close>

text \<open>
  C7 (as amended). A name is in the list of names to overload if and only if it is an
  attribute of the reference type, is not in the exclusion set, is bound on the tensor
  type to a method descriptor (whatever its qualified name) or to a plain function whose
  qualified name does not contain \<open>HookService\<close>, is not an attribute of \<open>object\<close>,
  and does not begin with the prefix \<open>native_\<close>. This is stated of the names that begin
  with \<open>native_\<close> or do not begin with \<open>nativ\<close>; nothing is stated of the other names
  that begin with \<open>nativ\<close>. An excluded name is never in the list.
\<close>

theorem eligible_iff:
  "((starts_with ''nativ'' attr \<longrightarrow> starts_with ''native_'' attr) \<longrightarrow>
    (attr \<in> set (which_methods_should_we_auto_overload exclude object_dir tensor_type syft_type) \<longleftrightarrow>
      attr \<in> set (py_dir syft_type) \<and> attr \<notin> set exclude \<and>
      (\<exists>lit. py_getattr tensor_type attr = Inr lit \<and>
         (ismethoddescriptor lit \<or> (is_function lit \<and> \<not> is_service_func lit))) \<and>
      attr \<notin> set object_dir \<and> \<not> starts_with ''native_'' attr)) \<and>
   (attr \<in> set exclude \<longrightarrow>
      attr \<notin> set (which_methods_should_we_auto_overload exclude object_dir tensor_type syft_type))"
proof (intro conjI impI)
  assume h: "starts_with ''nativ'' attr \<longrightarrow> starts_with ''native_'' attr"
  have "starts_with (''nativ'' @ ''e_'') attr \<Longrightarrow> starts_with ''nativ'' attr"
    by (rule starts_with_shorter)
  then have "starts_with ''nativ'' attr = starts_with ''native_'' attr" using h by auto
  then show "attr \<in> set (which_methods_should_we_auto_overload exclude object_dir tensor_type syft_type) \<longleftrightarrow>
      attr \<in> set (py_dir syft_type) \<and> attr \<notin> set exclude \<and>
      (\<exists>lit. py_getattr tensor_type attr = Inr lit \<and>
         (ismethoddescriptor lit \<or> (is_function lit \<and> \<not> is_service_func lit))) \<and>
      attr \<notin> set object_dir \<and> \<not> starts_with ''native_'' attr"
    by (auto simp: which_methods_should_we_auto_overload_def should_overload_def py_hasattr_def
        is_overloaded_def Let_def split: sum.splits)
next
  assume "attr \<in> set exclude"
  then show "attr \<notin> set (which_methods_should_we_auto_overload exclude object_dir tensor_type syft_type)"
    by (simp add: which_methods_should_we_auto_overload_def should_overload_def)
qed

theorem eligible_iff_witness:
  "''add'' \<in> set (which_methods_should_we_auto_overload [''size''] [''__init__''] tensor0 syft0) \<and>
   ''size'' \<notin> set (which_methods_should_we_auto_overload [''size''] [''__init__''] tensor0 syft0)"
  using eligible_iff [of "''add''" "[''size'']" "[''__init__'']" tensor0 syft0]
    eligible_iff [of "''size''" "[''size'']" "[''__init__'']" tensor0 syft0]
  by (simp add: which0)

text \<open>
  The claim as written fails for a method descriptor whose qualified name contains the
  service marker: the marker is tested for plain functions only, and the name is listed.
\<close>

theorem service_descriptor_eligible:
  "which_methods_should_we_auto_overload [] []
     [(''add'', PyObj MethodDescriptor (Some ''HookService.add'') ''add0'')]
     [(''add'', PyObj PlainFunction (Some ''TorchTensor.add'') ''add1'')] = [''add''] \<and>
   is_service_func (PyObj MethodDescriptor (Some ''HookService.add'') ''add0'')"
  by (simp add: which_methods_should_we_auto_overload_def py_dir_def should_overload_def py_hasattr_def py_getattr_def is_service_func_def is_overloaded_def)


section \<open>Renaming the native functions\<close>

text \<open>
  C8. For each name of the list of names to overload computed for the tensor type, the
  renaming loop raises nothing and leaves the name bound to \<open>None\<close>; the binding of
  \<open>native_\<close> followed by the name is the one it had before when there was one, and
  otherwise the object the name was bound to before. Every \<open>native_\<close> binding present
  before the loop is still there after it, unchanged.
\<close>

theorem rename_preserves_original:
  assumes "attr \<in> set (which_methods_should_we_auto_overload exclude object_dir tensor_type syft_type)"
  shows "fst (rename_native_functions
                (which_methods_should_we_auto_overload exclude object_dir tensor_type syft_type) tensor_type) = None \<and>
         py_getattr (snd (rename_native_functions
                (which_methods_should_we_auto_overload exclude object_dir tensor_type syft_type) tensor_type))
            attr = Inr PyNone \<and>
         map_of (snd (rename_native_functions
                (which_methods_should_we_auto_overload exclude object_dir tensor_type syft_type) tensor_type))
            (native_name attr) =
           (case map_of tensor_type (native_name attr) of
              None \<Rightarrow> map_of tensor_type attr
            | Some original \<Rightarrow> Some original) \<and>
         (\<forall>x kept. map_of tensor_type (native_name x) = Some kept \<longrightarrow>
            map_of (snd (rename_native_functions
                (which_methods_should_we_auto_overload exclude object_dir tensor_type syft_type) tensor_type))
              (native_name x) = Some kept)"
proof -
  let ?as = "which_methods_should_we_auto_overload exclude object_dir tensor_type syft_type"
  have 1: "\<forall>a \<in> set ?as. \<not> is_overloaded a"
    by (auto simp: which_methods_should_we_auto_overload_def should_overload_def Let_def split: sum.splits if_splits)
  have 2: "\<forall>a \<in> set ?as. map_of tensor_type a \<noteq> None"
    by (auto simp: which_methods_should_we_auto_overload_def should_overload_def Let_def py_hasattr_def py_getattr_def split: sum.splits if_splits option.splits)
  note m = rename_native_functions_maps[OF 1 2]
  have "map_of (snd (rename_native_functions ?as tensor_type)) (native_name x) = Some kept"
    if k: "map_of tensor_type (native_name x) = Some kept" for x kept
  proof (cases "x \<in> set ?as")
    case True
    then show ?thesis using m k by (simp add: preserved_def)
  next
    case False
    have "native_name x \<notin> set ?as" using 1 native_name_overloaded by metis
    moreover have "native_name x \<notin> native_name ` set ?as" using False by (auto simp: native_name_inj)
    ultimately show ?thesis using m k by simp
  qed
  then show ?thesis using m assms
    by (simp add: preserved_def py_getattr_def)
qed


theorem rename_preserves_original_witness:
  "map_of (snd (rename_native_functions
       (which_methods_should_we_auto_overload [''size''] [''__init__''] tensor0 syft0) tensor0))
     ''native_add'' = Some (PyObj MethodDescriptor (Some ''_TensorBase.add'') ''add0'') \<and>
   map_of (snd (rename_native_functions
       (which_methods_should_we_auto_overload [''size''] [''__init__''] tensor0 syft0) tensor0))
     ''native_mul'' = Some (PyObj MethodDescriptor (Some ''_TensorBase.mul'') ''mul0'') \<and>
   py_getattr (snd (rename_native_functions
       (which_methods_should_we_auto_overload [''size''] [''__init__''] tensor0 syft0) tensor0))
     ''add'' = Inr PyNone"
  using rename_preserves_original [of "''add''" "[''size'']" "[''__init__'']" tensor0 syft0]
    rename_preserves_original [of "''mul''" "[''size'']" "[''__init__'']" tensor0 syft0]
  by (simp only: which0 rename0) (simp add: py_getattr_def native_name_def tensor0_def)


section \<open>Copying the methods of the reference type\<close>

text \<open>
  C9 (as amended). Copying the attributes of the reference type \<open>TorchTensor\<close> onto a target type
  raises nothing; after it every name of the reference type that is not in the exclusion
  list is bound on the target to the object it is bound to on the reference type, and
  every name of the exclusion list has on the target the binding it had before (or none,
  as before). After both the tensor type and the pointer type have been targets, each
  such name of the reference type is an attribute of both, bound to the same object. A
  name that is not a name of the reference type has on the target the binding it had
  before (or none): the two types need not expose the same names.
\<close>

theorem mixin_copies_reference:
  "fst (add_methods_from_torch_tensor TorchTensor target TorchTensor) = None \<and>
   (\<forall>n. n \<in> set (py_dir TorchTensor) \<longrightarrow> n \<notin> set mixin_exclude \<longrightarrow>
      py_getattr (snd (add_methods_from_torch_tensor TorchTensor target TorchTensor)) n =
        py_getattr TorchTensor n \<and> py_hasattr TorchTensor n) \<and>
   (\<forall>n. n \<in> set mixin_exclude \<longrightarrow>
      py_getattr (snd (add_methods_from_torch_tensor TorchTensor target TorchTensor)) n =
        py_getattr target n) \<and>
   (\<forall>n. n \<notin> set (py_dir TorchTensor) \<longrightarrow>
      py_getattr (snd (add_methods_from_torch_tensor TorchTensor target TorchTensor)) n =
        py_getattr target n) \<and>
   (\<forall>n. n \<in> set (py_dir TorchTensor) \<longrightarrow> n \<notin> set mixin_exclude \<longrightarrow>
      py_hasattr (snd (add_methods_from_torch_tensor TorchTensor tensor_type TorchTensor)) n \<and>
      py_hasattr (snd (add_methods_from_torch_tensor TorchTensor pointer_type TorchTensor)) n \<and>
      py_getattr (snd (add_methods_from_torch_tensor TorchTensor tensor_type TorchTensor)) n =
        py_getattr (snd (add_methods_from_torch_tensor TorchTensor pointer_type TorchTensor)) n)"
proof -
  have a: "\<forall>a \<in> set (py_dir TorchTensor). a \<notin> set mixin_exclude \<longrightarrow> map_of TorchTensor a \<noteq> None"
    by (simp add: in_py_dir)
  note m = copy_attrs_maps[OF a]
  show ?thesis
    unfolding add_methods_from_torch_tensor_def py_getattr_def py_hasattr_def
    using m[of target] m[of tensor_type] m[of pointer_type]
    by (auto simp: in_py_dir split: option.splits)
qed

theorem mixin_copies_reference_witness:
  "py_getattr (snd (add_methods_from_torch_tensor syft0 tensor0 syft0)) ''send'' =
     Inr (PyObj PlainFunction (Some ''TorchTensor.send'') ''send1'') \<and>
   py_getattr (snd (add_methods_from_torch_tensor syft0 pointer0 syft0)) ''send'' =
     Inr (PyObj PlainFunction (Some ''TorchTensor.send'') ''send1'') \<and>
   py_getattr (snd (add_methods_from_torch_tensor syft0 pointer0 syft0)) ''__init__'' =
     Inr (PyObj PlainFunction (Some ''PointerTensor.__init__'') ''init2'')"
  using mixin_copies_reference [of syft0 pointer0 tensor0 pointer0]
  by (simp add: syft0_def pointer0_def tensor0_def py_dir_def py_getattr_def mixin_exclude_def py_hasattr_def)

text \<open>
  The claim as written fails: after the copy onto both types the tensor type still has
  the attribute \<open>native_mul\<close>, which the pointer type has not, so the two types do not
  expose the same names.
\<close>

theorem surfaces_differ_after_copy:
  "py_hasattr (snd (add_methods_from_torch_tensor syft0 tensor0 syft0)) ''native_mul'' \<and>
   \<not> py_hasattr (snd (add_methods_from_torch_tensor syft0 pointer0 syft0)) ''native_mul'' \<and>
   py_dir (snd (add_methods_from_torch_tensor syft0 tensor0 syft0)) \<noteq>
     py_dir (snd (add_methods_from_torch_tensor syft0 pointer0 syft0))"
proof -
  have a: "py_hasattr (snd (add_methods_from_torch_tensor syft0 tensor0 syft0)) ''native_mul''"
    by (simp add: add_methods_from_torch_tensor_def syft0_def tensor0_def py_dir_def
        py_getattr_def py_setattr_def mixin_exclude_def py_hasattr_def)
  have b: "\<not> py_hasattr (snd (add_methods_from_torch_tensor syft0 pointer0 syft0)) ''native_mul''"
    by (simp add: add_methods_from_torch_tensor_def syft0_def pointer0_def py_dir_def
        py_getattr_def py_setattr_def mixin_exclude_def py_hasattr_def)
  have "''native_mul'' \<in> set (py_dir (snd (add_methods_from_torch_tensor syft0 tensor0 syft0)))"
    using a by (simp add: in_py_dir py_hasattr_def py_getattr_def split: option.splits)
  moreover have "''native_mul'' \<notin> set (py_dir (snd (add_methods_from_torch_tensor syft0 pointer0 syft0)))"
    using b by (simp add: in_py_dir py_hasattr_def py_getattr_def split: option.splits)
  ultimately have "py_dir (snd (add_methods_from_torch_tensor syft0 tensor0 syft0)) \<noteq>
     py_dir (snd (add_methods_from_torch_tensor syft0 pointer0 syft0))" by metis
  with a b show ?thesis by simp
qed

section \<open>The initialization hook\<close>

text \<open>
  Modelled from the spec: the workers package is not part of the sources; a local worker
  is a constructable object that the hook stores and that is given the hook. It is known
  here by the arguments of its constructor and by whether its \<open>hook\<close> attribute is set
  to the hook under construction.
\<close>

type_synonym kwargs = "(string \<times> val) list"

record worker =
  worker_id :: string
  is_client_worker :: bool
  worker_hook :: bool

text \<open>
  The attributes \<open>__init__\<close> sets on the hook (\<open>None\<close> for the two dictionaries while
  they are not set; \<open>to_auto_overload\<close> has the tensor type as its only key), and the
  state outside the hook that \<open>__init__\<close> reads and writes: the marker on the torch
  module, \<open>syft.torch\<close> (known by its exclusion list), \<open>syft.local_worker\<close>, the
  attributes of \<open>torch.Tensor\<close> and of \<open>PointerTensor\<close>, and the warnings logged.
  The attribute \<open>torch\<close> of the hook is left out: nothing reads it.
\<close>

record torch_hook =
  local_worker :: "worker option"
  to_auto_overload :: "string list option"
  args_hook_cache :: "(pyattr \<rightharpoonup> lam) option"

record world =
  torch_hooked :: bool
  syft_torch_exclude :: "string list option"
  syft_local_worker :: "worker option"
  Tensor :: pytype
  PointerTensor :: pytype
  warnings :: "string list"

text \<open>\<open>_add_registration_to___init__\<close> and the function object it installs.\<close>

definition new_init_object :: pyobj where
  "new_init_object =
     PyObj PlainFunction (Some ''TorchHook._add_registration_to___init__.<locals>.new___init__'')
       ''new___init__''"

definition add_registration_to_init :: "pytype \<Rightarrow> error option \<times> pytype" where
  "add_registration_to_init tensor_type =
     (if ''native___init__'' \<notin> set (py_dir tensor_type)
      then (case py_getattr tensor_type ''__init__'' of
              Inl e \<Rightarrow> (Some e, tensor_type)
            | Inr init \<Rightarrow>
                (None, py_setattr (py_setattr tensor_type ''native___init__'' init)
                         ''__init__'' new_init_object))
      else (None, py_setattr tensor_type ''__init__'' new_init_object))"

text \<open>\<open>_hook_properties\<close>: four property objects are bound on the tensor type.\<close>

definition property_object :: "string \<Rightarrow> pyobj" where
  "property_object name = PyObj PropertyObject None name"

definition hook_properties :: "pytype \<Rightarrow> pytype" where
  "hook_properties tensor_type =
     py_setattr (py_setattr (py_setattr (py_setattr tensor_type
       ''location'' (property_object ''location''))
       ''id_at_location'' (property_object ''id_at_location''))
       ''id'' (property_object ''id''))
       ''is_wrapper'' (property_object ''is_wrapper'')"

text \<open>
  \<open>_hook_native_tensor\<close>. An exception leaves the type as the steps before it made it.
\<close>

definition hook_native_tensor ::
  "string list \<Rightarrow> string list \<Rightarrow> pytype \<Rightarrow> torch_hook \<Rightarrow> pytype \<Rightarrow>
   error option \<times> torch_hook \<times> pytype" where
  "hook_native_tensor exclude object_dir syft_type self tensor_type =
     (case add_registration_to_init tensor_type of
        (Some e, t1) \<Rightarrow> (Some e, self, t1)
      | (None, t1) \<Rightarrow>
          (let t2 = hook_properties t1;
               to_overload = which_methods_should_we_auto_overload exclude object_dir t2 syft_type;
               self1 = self\<lparr>to_auto_overload := Some to_overload\<rparr>
           in case rename_native_functions to_overload t2 of
                (Some e, t3) \<Rightarrow> (Some e, self1, t3)
              | (None, t3) \<Rightarrow>
                  (case add_methods_from_torch_tensor syft_type t3 syft_type of
                     (e, t4) \<Rightarrow> (e, self1, t4))))"

text \<open>
  \<open>__init__\<close>: \<open>hooking_steps\<close> is what follows the test of the marker on a first
  hook. \<open>exclude\<close> is the exclusion list of the \<open>TorchAttributes\<close> object and
  \<open>TorchTensor\<close> the reference type, both defined outside the sources.
\<close>

definition hooking_steps ::
  "string list \<Rightarrow> string list \<Rightarrow> pytype \<Rightarrow> bool \<Rightarrow> torch_hook \<Rightarrow> world \<Rightarrow>
   error option \<times> torch_hook \<times> world" where
  "hooking_steps exclude object_dir TorchTensor is_client self w =
     (let w1 = w\<lparr>syft_torch_exclude := Some exclude\<rparr>;
          self1 = (case local_worker self of
                     None \<Rightarrow> self\<lparr>local_worker :=
                       Some \<lparr>worker_id = ''me'', is_client_worker = is_client, worker_hook = True\<rparr>\<rparr>
                   | Some lw \<Rightarrow> self\<lparr>local_worker := Some (lw\<lparr>worker_hook := True\<rparr>)\<rparr>);
          self2 = self1\<lparr>to_auto_overload := None, args_hook_cache := Some Map.empty\<rparr>
      in case hook_native_tensor exclude object_dir TorchTensor self2 (Tensor w1) of
           (Some e, self3, t) \<Rightarrow> (Some e, self3, w1\<lparr>Tensor := t\<rparr>)
         | (None, self3, t) \<Rightarrow>
             (case add_methods_from_torch_tensor TorchTensor (PointerTensor w1) TorchTensor of
                (Some e, p) \<Rightarrow> (Some e, self3, w1\<lparr>Tensor := t, PointerTensor := p\<rparr>)
              | (None, p) \<Rightarrow>
                  (None, self3,
                   w1\<lparr>Tensor := t, PointerTensor := p, syft_local_worker := local_worker self3\<rparr>)))"

definition TorchHook_init ::
  "string list \<Rightarrow> string list \<Rightarrow> pytype \<Rightarrow> worker option \<Rightarrow> bool \<Rightarrow> bool \<Rightarrow> world \<Rightarrow>
   error option \<times> torch_hook \<times> world" where
  "TorchHook_init exclude object_dir TorchTensor local_worker_arg is_client verbose w =
     (let self = \<lparr>local_worker = local_worker_arg, to_auto_overload = None, args_hook_cache = None\<rparr>
      in if torch_hooked w
         then (None, self\<lparr>local_worker := syft_local_worker w\<rparr>,
               w\<lparr>warnings := warnings w @ [''Torch was already hooked... skipping hooking process'']\<rparr>)
         else hooking_steps exclude object_dir TorchTensor is_client self (w\<lparr>torch_hooked := True\<rparr>))"

definition world0 :: world where
  "world0 = \<lparr>torch_hooked = False, syft_torch_exclude = None, syft_local_worker = None,
     Tensor = tensor0, PointerTensor = pointer0, warnings = []\<rparr>"

text \<open>
  A tensor instance, by the attributes the initialization sets on it (\<open>None\<close> while an
  attribute is not set) and by what the native constructor made, and the state a
  constructor call can change: the instance under construction (\<open>cls\<close> in the source)
  and the registrations of objects with workers (worker identity and object identity).
\<close>

record 'n tensor_instance =
  inst_native :: 'n
  inst_id :: "val option"
  inst_owner :: "worker option"
  inst_is_wrapper :: "bool option"

record 'n construction =
  cls :: "'n tensor_instance"
  registered :: "(string \<times> val) list"

text \<open>
  Modelled from the spec: \<open>initialize_tensor\<close> (the module \<open>tensors.abstract\<close> is not
  part of the sources). The spec describes a uniform initializer that invokes the
  original construction logic, reached through the alternate name, and then layers the
  identity metadata on the instance: an identity token, an owner reference and a wrapper
  flag that defaults to false; the local worker is referenced by every value's owner, and
  no method of a worker is called beyond its construction and storage. The docstring of
  \<open>_add_registration_to___init__\<close> says that the flag \<open>torch_tensor\<close> skips the native
  initialization. \<open>native_init\<close> is the original constructor and \<open>new_id\<close> the token
  taken when no identity is given; both are parameters.
\<close>

definition initialize_tensor ::
  "(val list \<Rightarrow> kwargs \<Rightarrow> 'n \<Rightarrow> 'n) \<Rightarrow> val \<Rightarrow> torch_hook \<Rightarrow> val \<Rightarrow> bool \<Rightarrow> val list \<Rightarrow> kwargs \<Rightarrow>
   'n construction \<Rightarrow> 'n construction" where
  "initialize_tensor native_init new_id hook_self id_arg torch_tensor init_args init_kwargs s =
     s\<lparr>cls := (cls s)
        \<lparr>inst_native := (if torch_tensor then inst_native (cls s)
                          else native_init init_args init_kwargs (inst_native (cls s))),
         inst_id := Some (if id_arg = PNone then new_id else id_arg),
         inst_owner := local_worker hook_self,
         inst_is_wrapper := Some False\<rparr>\<rparr>"

text \<open>
  \<open>new___init__\<close> of the source, with the initializer it calls as its first parameter:
  \<open>hook_self\<close> and \<open>torch_tensor\<close> are the variables of the enclosing function,
  \<open>args\<close> and \<open>kwargs\<close> the arguments of the native constructor, and \<open>owner\<close>,
  \<open>id\<close> and \<open>register\<close> the extra keyword parameters.
\<close>

definition new_init ::
  "(torch_hook \<Rightarrow> val \<Rightarrow> bool \<Rightarrow> val list \<Rightarrow> kwargs \<Rightarrow> 's \<Rightarrow> 's) \<Rightarrow>
   torch_hook \<Rightarrow> bool \<Rightarrow> val list \<Rightarrow> worker option \<Rightarrow> val \<Rightarrow> bool \<Rightarrow> kwargs \<Rightarrow> 's \<Rightarrow> 's" where
  "new_init initializer hook_self torch_tensor args owner id_arg register kwargs s =
     initializer hook_self id_arg torch_tensor args kwargs s"

text \<open>For concrete runs: a hook with its local worker, and an instance not yet initialized.\<close>

definition hook0 :: torch_hook where
  "hook0 = \<lparr>local_worker = Some \<lparr>worker_id = ''me'', is_client_worker = True, worker_hook = True\<rparr>,
     to_auto_overload = None, args_hook_cache = None\<rparr>"

definition no_native_init :: "val list \<Rightarrow> kwargs \<Rightarrow> val \<Rightarrow> val" where
  "no_native_init init_args init_kwargs native = native"

definition construction0 :: "val construction" where
  "construction0 =
     \<lparr>cls = \<lparr>inst_native = PNone, inst_id = None, inst_owner = None, inst_is_wrapper = None\<rparr>,
      registered = []\<rparr>"

section \<open>Helper lemmas on the initialization\<close>

lemma hooking_steps_flag:
  "torch_hooked (snd (snd (hooking_steps exclude object_dir TorchTensor is_client self w))) = torch_hooked w"
  by (simp add: hooking_steps_def Let_def split: prod.splits option.splits)

lemma world0_fields:
  "\<not> torch_hooked world0" "warnings world0 = []" "syft_local_worker world0 = None"
  by (simp_all add: world0_def)

lemma add_registration_keeps_native_init:
  assumes "py_hasattr tensor_type ''__init__''"
  shows "fst (add_registration_to_init tensor_type) = None \<and>
         map_of (snd (add_registration_to_init tensor_type)) ''native___init__'' =
           (case map_of tensor_type ''native___init__'' of
              None \<Rightarrow> map_of tensor_type ''__init__'' | Some kept \<Rightarrow> Some kept) \<and>
         map_of (snd (add_registration_to_init tensor_type)) ''__init__'' = Some new_init_object"
  using assms
  by (auto simp: add_registration_to_init_def py_hasattr_def py_getattr_def in_py_dir
      map_of_setattr split: option.splits)

section \<open>Hooking twice\<close>

text \<open>
  C6. When the torch module already carries the marker, \<open>__init__\<close> raises nothing,
  logs one warning, sets the local worker of the hook to \<open>syft.local_worker\<close> and
  returns: the tensor type, the pointer type and every other part of the state are as
  before, and the hook has neither a list of names to overload nor a cache. When the
  module does not carry the marker, the steps of the hooking run on the state in which
  the marker is already set, and the marker is set afterwards whether or not a step
  raised.
\<close>

theorem rehook_short_circuits:
  "(torch_hooked w \<longrightarrow>
      TorchHook_init exclude object_dir TorchTensor local_worker_arg is_client verbose w =
        (None,
         \<lparr>local_worker = syft_local_worker w, to_auto_overload = None, args_hook_cache = None\<rparr>,
         w\<lparr>warnings := warnings w @ [''Torch was already hooked... skipping hooking process'']\<rparr>)) \<and>
   (\<not> torch_hooked w \<longrightarrow>
      TorchHook_init exclude object_dir TorchTensor local_worker_arg is_client verbose w =
        hooking_steps exclude object_dir TorchTensor is_client
          \<lparr>local_worker = local_worker_arg, to_auto_overload = None, args_hook_cache = None\<rparr>
          (w\<lparr>torch_hooked := True\<rparr>) \<and>
      torch_hooked (snd (snd
        (TorchHook_init exclude object_dir TorchTensor local_worker_arg is_client verbose w))))"
  by (simp add: TorchHook_init_def hooking_steps_flag)


theorem rehook_short_circuits_witness:
  "TorchHook_init [''size''] [''__init__''] syft0 None True True (world0\<lparr>torch_hooked := True\<rparr>) =
     (None, \<lparr>local_worker = None, to_auto_overload = None, args_hook_cache = None\<rparr>,
      world0\<lparr>torch_hooked := True,
        warnings := [''Torch was already hooked... skipping hooking process'']\<rparr>) \<and>
   torch_hooked (snd (snd (TorchHook_init [''size''] [''__init__''] syft0 None True True world0)))"
proof
  show "TorchHook_init [''size''] [''__init__''] syft0 None True True (world0\<lparr>torch_hooked := True\<rparr>) =
     (None, \<lparr>local_worker = None, to_auto_overload = None, args_hook_cache = None\<rparr>,
      world0\<lparr>torch_hooked := True,
        warnings := [''Torch was already hooked... skipping hooking process'']\<rparr>)"
    using rehook_short_circuits [of "world0\<lparr>torch_hooked := True\<rparr>" "[''size'']" "[''__init__'']" syft0 None True True]
    by (simp add: world0_fields)
  show "torch_hooked (snd (snd (TorchHook_init [''size''] [''__init__''] syft0 None True True world0)))"
    using rehook_short_circuits [of world0 "[''size'']" "[''__init__'']" syft0 None True True] world0_fields(1)
    by blast
qed

section \<open>The replacement constructor\<close>

text \<open>
  C10. The replacement constructor takes the extra parameters \<open>owner\<close>, \<open>id\<close> and
  \<open>register\<close>, and the values of \<open>owner\<close> and \<open>register\<close> have no effect, whatever
  the initializer is. With the initializer of the specification, construction changes
  the instance and nothing else: the registrations with workers are as before, the owner
  of the instance is the local worker of the hook and not the \<open>owner\<close> given, its
  identity is the \<open>id\<close> given (or a new token) and its wrapper flag is false.
\<close>

theorem new_init_ignores_owner_and_register:
  "new_init initializer hook_self torch_tensor args owner id_arg register kwargs s' =
     new_init initializer hook_self torch_tensor args owner' id_arg register' kwargs s' \<and>
   new_init (initialize_tensor native_init new_id) hook_self torch_tensor args owner id_arg
       register kwargs s =
     s\<lparr>cls := cls (new_init (initialize_tensor native_init new_id) hook_self torch_tensor args
                     None id_arg True kwargs s)\<rparr> \<and>
   registered (new_init (initialize_tensor native_init new_id) hook_self torch_tensor args owner
       id_arg register kwargs s) = registered s \<and>
   inst_owner (cls (new_init (initialize_tensor native_init new_id) hook_self torch_tensor args
       owner id_arg register kwargs s)) = local_worker hook_self \<and>
   inst_id (cls (new_init (initialize_tensor native_init new_id) hook_self torch_tensor args
       owner id_arg register kwargs s)) = Some (if id_arg = PNone then new_id else id_arg) \<and>
   inst_is_wrapper (cls (new_init (initialize_tensor native_init new_id) hook_self torch_tensor
       args owner id_arg register kwargs s)) = Some False \<and>
   inst_native (cls (new_init (initialize_tensor native_init new_id) hook_self torch_tensor
       args owner id_arg register kwargs s)) =
     (if torch_tensor then inst_native (cls s)
      else native_init args kwargs (inst_native (cls s)))"
  by (simp add: new_init_def initialize_tensor_def)

theorem new_init_ignores_owner_and_register_witness:
  "registered (new_init (initialize_tensor no_native_init (PInt 1000)) hook0 True [PInt 1]
      (Some \<lparr>worker_id = ''bob'', is_client_worker = False, worker_hook = False\<rparr>) (PInt 7) True []
      construction0) = [] \<and>
   inst_owner (cls (new_init (initialize_tensor no_native_init (PInt 1000)) hook0 True [PInt 1]
      (Some \<lparr>worker_id = ''bob'', is_client_worker = False, worker_hook = False\<rparr>) (PInt 7) True []
      construction0)) =
     Some \<lparr>worker_id = ''me'', is_client_worker = True, worker_hook = True\<rparr> \<and>
   inst_id (cls (new_init (initialize_tensor no_native_init (PInt 1000)) hook0 True [PInt 1]
      (Some \<lparr>worker_id = ''bob'', is_client_worker = False, worker_hook = False\<rparr>) (PInt 7) True []
      construction0)) = Some (PInt 7)"
proof -
  note t = new_init_ignores_owner_and_register
    [of "initialize_tensor no_native_init (PInt 1000)" hook0 True "[PInt 1]"
     "Some \<lparr>worker_id = ''bob'', is_client_worker = False, worker_hook = False\<rparr>" "PInt 7" True "[]"
     construction0 None True no_native_init "PInt 1000" construction0]
  note r = t[THEN conjunct2, THEN conjunct2, THEN conjunct1]
  note ow = t[THEN conjunct2, THEN conjunct2, THEN conjunct2, THEN conjunct1]
  note i = t[THEN conjunct2, THEN conjunct2, THEN conjunct2, THEN conjunct2, THEN conjunct1]
  show ?thesis using r ow i by (simp add: hook0_def construction0_def)
qed

end
